theory Spec2Isabelle
  imports Complex_Main "HOL-Library.Word" "HOL-Library.Signed_Division"
begin

unbundle bit_operations_syntax

section \<open>Machine numbers\<close>

text \<open>
  The firmware computes with \<open>int16_t\<close>, \<open>uint16_t\<close> and \<open>int32_t\<close> integers and with
  single-precision \<open>float\<close> values. Integers are words of the given width; \<open>sint\<close> reads
  a signed one, \<open>uint\<close> an unsigned one. C++ evaluates integer expressions on the promoted
  type \<open>int\<close> (32 bits): the model computes such an expression on \<open>int\<close> where it cannot
  leave 32 bits, and on \<open>32 word\<close> (wrapping) where it can: C++ leaves signed overflow
  undefined, and two's complement wrap-around is what the target processors do. Storing
  into a narrower variable keeps the low bits, and \<open>>>\<close> on a negative \<open>int32_t\<close> is the
  arithmetic shift \<open>signed_drop_bit\<close>.
\<close>

type_synonym int16_t = "16 word"
type_synonym uint16_t = "16 word"
type_synonym int32_t = "32 word"

definition int16_of_int :: "int \<Rightarrow> int16_t" where
  "int16_of_int k = word_of_int k"

definition int32_of_int :: "int \<Rightarrow> int32_t" where
  "int32_of_int k = word_of_int k"

text \<open>Division of two \<open>int32_t\<close> values truncates towards zero.\<close>

definition div32 :: "int32_t \<Rightarrow> int32_t \<Rightarrow> int32_t" where
  "div32 a b = int32_of_int (sint a sdiv sint b)"

subsection \<open>Single-precision floating point\<close>

text \<open>
  A finite \<open>float\<close> is the rational number it denotes. Every arithmetic operation
  computes the exact result and rounds it to the nearest binary32 value, ties to even:
  24 significant bits, the quantum never below \<open>2 powi - 149\<close> (subnormal numbers).
  Infinities and NaN are outside the model: the exponent is unbounded above.
\<close>

type_synonym float = rat

function bitlen :: "int \<Rightarrow> int" where
  "bitlen n = (if n \<le> 0 then 0 else 1 + bitlen (n div 2))"
  by pat_completeness auto
termination
  by (relation "measure nat") auto

declare bitlen.simps [simp del]

definition ilog2 :: "rat \<Rightarrow> int" where
  "ilog2 x = (let (p, q) = quotient_of x;
                  d = bitlen p - bitlen q
              in if 2 powi d \<le> x then d else d - 1)"

definition round_even :: "rat \<Rightarrow> int" where
  "round_even m = (let f = \<lfloor>m\<rfloor>; r = m - of_int f
                   in if r < 1 / 2 then f
                      else if 1 / 2 < r then f + 1
                      else if even f then f else f + 1)"

definition f32 :: "rat \<Rightarrow> float" where
  "f32 x = (if x = 0 then 0
            else let q = max (ilog2 \<bar>x\<bar> - 23) (- 149)
                 in sgn x * of_int (round_even (\<bar>x\<bar> / 2 powi q)) * 2 powi q)"

definition float_of_int :: "int \<Rightarrow> float" where
  "float_of_int k = f32 (of_int k)"

definition fadd :: "float \<Rightarrow> float \<Rightarrow> float" where
  "fadd a b = f32 (a + b)"

definition fsub :: "float \<Rightarrow> float \<Rightarrow> float" where
  "fsub a b = f32 (a - b)"

definition fmul :: "float \<Rightarrow> float \<Rightarrow> float" where
  "fmul a b = f32 (a * b)"

text \<open>
  Converting a \<open>float\<close> to an integer type discards the fraction (towards zero). Where
  the truncated value does not fit the target type C++ leaves the result undefined; the
  model keeps its low bits, which is what a conversion through a wider register gives.
\<close>

definition trunc :: "float \<Rightarrow> int" where
  "trunc x = (if 0 \<le> x then \<lfloor>x\<rfloor> else \<lceil>x\<rceil>)"

definition int32_of_float :: "float \<Rightarrow> int32_t" where
  "int32_of_float x = int32_of_int (trunc x)"

definition int16_of_float :: "float \<Rightarrow> int16_t" where
  "int16_of_float x = int16_of_int (trunc x)"

section \<open>Declarations the two headers include\<close>

text \<open>
  Modelled from the spec: the range-clamp utility \<open>constrain\<close> of \<open>common.hpp\<close>
  (``a shared numeric-range-clamp utility''), used on promoted \<open>int\<close> values.
\<close>

definition constrain :: "int \<Rightarrow> int \<Rightarrow> int \<Rightarrow> int" where
  "constrain amt low high = (if amt < low then low else if high < amt then high else amt)"

text \<open>
  Modelled from the spec: the axis and demand indices of \<open>rc.hpp\<close> and \<open>common.hpp\<close>
  (``axis order roll, pitch, yaw''; the stabilizer reads the stick demand of an axis at
  the axis's own index, and the throttle is the fourth demand).
\<close>

definition AXIS_ROLL :: nat where "AXIS_ROLL = 0"
definition AXIS_PITCH :: nat where "AXIS_PITCH = 1"
definition AXIS_YAW :: nat where "AXIS_YAW = 2"

definition DEMAND_ROLL :: nat where "DEMAND_ROLL = 0"
definition DEMAND_PITCH :: nat where "DEMAND_PITCH = 1"
definition DEMAND_YAW :: nat where "DEMAND_YAW = 2"
definition DEMAND_THROTTLE :: nat where "DEMAND_THROTTLE = 3"

text \<open>
  Modelled from the spec: the configuration structures of \<open>config.hpp\<close>. \<open>PidConfig\<close>:
  ``per-axis proportional/integral/derivative gains for rate control, a separate
  proportional gain for angle (leveling) control, and a per-axis software-trim offset'';
  the gains are \<open>float\<close> (the simulator board assigns them \<open>0.125f\<close> and the like), the
  trim an \<open>int16_t\<close> per axis. \<open>ImuConfig\<close>: ``maximum commanded inclination angle'', an
  unsigned 16-bit bound. \<open>PwmConfig\<close>: ``minimum and maximum valid motor command
  values'', which the simulator board copies into \<open>uint16_t\<close> variables. A fixed-size
  array is a function of its index.
\<close>

record PidConfig =
  levelP :: float
  ratePitchrollP :: float
  ratePitchrollI :: float
  ratePitchrollD :: float
  yawP :: float
  yawI :: float
  softwareTrim :: "nat \<Rightarrow> int16_t"

record ImuConfig =
  maxAngleInclination :: uint16_t

record PwmConfig =
  pwm_min :: uint16_t
  pwm_max :: uint16_t

text \<open>
  Modelled from the spec: the receiver object \<open>RC\<close> of \<open>rc.hpp\<close> (``a 4-element
  stick-demand array and a boolean is-throttle-at-minimum query'').
\<close>

record RC =
  command :: "nat \<Rightarrow> int16_t"
  throttleIsDown :: bool

section \<open>stabilize.hpp\<close>

record Stabilize =
  axisPID :: "nat \<Rightarrow> int16_t"
  lastGyro :: "nat \<Rightarrow> int16_t"
  delta1 :: "nat \<Rightarrow> int32_t"
  delta2 :: "nat \<Rightarrow> int32_t"
  errorGyroI :: "nat \<Rightarrow> int32_t"
  errorAngleI :: "nat \<Rightarrow> int32_t"
  imuConfig :: ImuConfig
  pidConfig :: PidConfig

definition resetIntegral :: "Stabilize \<Rightarrow> Stabilize" where
  "resetIntegral s =
     (let s1 = s\<lparr>errorGyroI := (errorGyroI s)(AXIS_ROLL := 0)\<rparr>;
          s2 = s1\<lparr>errorGyroI := (errorGyroI s1)(AXIS_PITCH := 0)\<rparr>;
          s3 = s2\<lparr>errorGyroI := (errorGyroI s2)(AXIS_YAW := 0)\<rparr>;
          s4 = s3\<lparr>errorAngleI := (errorAngleI s3)(AXIS_ROLL := 0)\<rparr>;
          s5 = s4\<lparr>errorAngleI := (errorAngleI s4)(AXIS_PITCH := 0)\<rparr>
      in s5)"

definition Stabilize_init :: "PidConfig \<Rightarrow> ImuConfig \<Rightarrow> Stabilize \<Rightarrow> Stabilize" where
  "Stabilize_init pc ic s =
     (let s1 = s\<lparr>pidConfig := pc, imuConfig := ic\<rparr>;
          s2 = fold (\<lambda>axis t. t\<lparr>lastGyro := (lastGyro t)(axis := 0),
                                     delta1 := (delta1 t)(axis := 0),
                                     delta2 := (delta2 t)(axis := 0)\<rparr>) [0 ..< 2] s1
      in resetIntegral s2)"

definition computeITermGyro ::
  "Stabilize \<Rightarrow> float \<Rightarrow> float \<Rightarrow> (nat \<Rightarrow> int16_t) \<Rightarrow> (nat \<Rightarrow> int16_t) \<Rightarrow> nat
     \<Rightarrow> int32_t \<times> Stabilize" where
  "computeITermGyro s rateP rateI rcCommand gyroADC axis =
     (let error = int32_of_float
                    (fsub (fmul (float_of_int (sint (rcCommand axis))) rateP)
                          (float_of_int (sint (gyroADC axis))));
          s1 = s\<lparr>errorGyroI := (errorGyroI s)
                  (axis := int32_of_int (constrain (sint (errorGyroI s axis + error)) (- 16000) 16000))\<rparr>;
          s2 = (if 640 < \<bar>sint (gyroADC axis)\<bar> \<or> (axis = AXIS_YAW \<and> 100 < \<bar>sint (rcCommand axis)\<bar>)
                then s1\<lparr>errorGyroI := (errorGyroI s1)(axis := 0)\<rparr>
                else s1)
      in (signed_drop_bit 6 (int32_of_float (fmul (float_of_int (sint (errorGyroI s2 axis))) rateI)),
          s2))"

definition computePid ::
  "Stabilize \<Rightarrow> float \<Rightarrow> int32_t \<Rightarrow> int32_t \<Rightarrow> int32_t \<Rightarrow> (nat \<Rightarrow> int16_t) \<Rightarrow> nat \<Rightarrow> int16_t" where
  "computePid s rateP PTerm ITerm DTerm gyroADC axis =
     (let PTerm1 = int32_of_float
                     (fsub (float_of_int (sint PTerm))
                           (fmul (float_of_int (sint (gyroADC axis))) rateP))
      in int16_of_int
           (sint (PTerm1 + ITerm - DTerm + int32_of_int (sint (softwareTrim (pidConfig s) axis)))))"

text \<open>
  The body of \<open>computeLevelPid\<close> up to its \<open>return\<close> statement: the three terms handed to
  \<open>computePid\<close> and the state it leaves.
\<close>

definition computeLevelPid_terms ::
  "Stabilize \<Rightarrow> (nat \<Rightarrow> int16_t) \<Rightarrow> (nat \<Rightarrow> int16_t) \<Rightarrow> (nat \<Rightarrow> float) \<Rightarrow> nat
     \<Rightarrow> int32_t \<times> int32_t \<times> int32_t \<times> Stabilize" where
  "computeLevelPid_terms s rcCommand gyroADC eulerAngles axis =
     (let (ITermGyro, s1) =
            computeITermGyro s (ratePitchrollP (pidConfig s)) (ratePitchrollI (pidConfig s))
              rcCommand gyroADC axis;
          errorAngle = int32_of_float
            (fsub (float_of_int (constrain (2 * sint (rcCommand axis))
                                    (- uint (maxAngleInclination (imuConfig s1)))
                                    (uint (maxAngleInclination (imuConfig s1)))))
                  (fmul (float_of_int 10) (eulerAngles axis)));
          PTermAccel = int32_of_float (fmul (float_of_int (sint errorAngle)) (levelP (pidConfig s1)));
          s2 = s1\<lparr>errorAngleI := (errorAngleI s1)
                  (axis := int32_of_int (constrain (sint (errorAngleI s1 axis + errorAngle)) (- 10000) 10000))\<rparr>;
          prop = int32_of_int (max \<bar>sint (rcCommand DEMAND_PITCH)\<bar> \<bar>sint (rcCommand DEMAND_ROLL)\<bar>);
          PTerm = div32 (PTermAccel * (500 - prop) + int32_of_int (sint (rcCommand axis)) * prop) 500;
          ITerm = div32 (ITermGyro * prop) 500;
          delta = int32_of_int (sint (gyroADC axis) - sint (lastGyro s2 axis));
          s3 = s2\<lparr>lastGyro := (lastGyro s2)(axis := gyroADC axis)\<rparr>;
          deltaSum = delta1 s3 axis + delta2 s3 axis + delta;
          s4 = s3\<lparr>delta2 := (delta2 s3)(axis := delta1 s3 axis)\<rparr>;
          s5 = s4\<lparr>delta1 := (delta1 s4)(axis := delta)\<rparr>;
          DTerm = int32_of_float (fmul (float_of_int (sint deltaSum)) (ratePitchrollD (pidConfig s5)))
      in (PTerm, ITerm, DTerm, s5))"

definition computeLevelPid ::
  "Stabilize \<Rightarrow> (nat \<Rightarrow> int16_t) \<Rightarrow> (nat \<Rightarrow> int16_t) \<Rightarrow> (nat \<Rightarrow> float) \<Rightarrow> nat
     \<Rightarrow> int16_t \<times> Stabilize" where
  "computeLevelPid s rcCommand gyroADC eulerAngles axis =
     (let (PTerm, ITerm, DTerm, s5) = computeLevelPid_terms s rcCommand gyroADC eulerAngles axis
      in (computePid s5 (ratePitchrollP (pidConfig s5)) PTerm ITerm DTerm gyroADC axis, s5))"

definition Stabilize_update ::
  "Stabilize \<Rightarrow> (nat \<Rightarrow> int16_t) \<Rightarrow> (nat \<Rightarrow> int16_t) \<Rightarrow> (nat \<Rightarrow> float) \<Rightarrow> Stabilize" where
  "Stabilize_update s rcCommand gyroADC eulerAngles =
     (let (r, s1) = computeLevelPid s rcCommand gyroADC eulerAngles AXIS_ROLL;
          s2 = s1\<lparr>axisPID := (axisPID s1)(AXIS_ROLL := r)\<rparr>;
          (p, s3) = computeLevelPid s2 rcCommand gyroADC eulerAngles AXIS_PITCH;
          s4 = s3\<lparr>axisPID := (axisPID s3)(AXIS_PITCH := p)\<rparr>;
          (ITermGyroYaw, s5) =
            computeITermGyro s4 (yawP (pidConfig s4)) (yawI (pidConfig s4)) rcCommand gyroADC AXIS_YAW;
          s6 = s5\<lparr>axisPID := (axisPID s5)
                  (AXIS_YAW := computePid s5 (yawP (pidConfig s5))
                                 (int32_of_int (sint (rcCommand AXIS_YAW))) ITermGyroYaw 0 gyroADC AXIS_YAW)\<rparr>;
          s7 = s6\<lparr>axisPID := (axisPID s6)
                  (AXIS_YAW := int16_of_int
                     (constrain (sint (axisPID s6 AXIS_YAW))
                        (- 100 - \<bar>sint (rcCommand DEMAND_YAW)\<bar>)
                        (100 + \<bar>sint (rcCommand DEMAND_YAW)\<bar>)))\<rparr>
      in s7)"

text \<open>
  Two names for the proofs. \<open>gyroI_next\<close> is the value \<open>computeITermGyro\<close> leaves in
  \<open>errorGyroI[axis]\<close>, as a function of the accumulator it finds there; \<open>level_state\<close> is
  the state \<open>computeLevelPid\<close> leaves.
\<close>

definition gyroI_next ::
  "int32_t \<Rightarrow> float \<Rightarrow> (nat \<Rightarrow> int16_t) \<Rightarrow> (nat \<Rightarrow> int16_t) \<Rightarrow> nat \<Rightarrow> int32_t" where
  "gyroI_next acc rateP rcCommand gyroADC axis =
     (if 640 < \<bar>sint (gyroADC axis)\<bar> \<or> (axis = AXIS_YAW \<and> 100 < \<bar>sint (rcCommand axis)\<bar>)
      then 0
      else int32_of_int
             (constrain
                (sint (acc + int32_of_float
                               (fsub (fmul (float_of_int (sint (rcCommand axis))) rateP)
                                     (float_of_int (sint (gyroADC axis))))))
                (- 16000) 16000))"

definition level_state ::
  "Stabilize \<Rightarrow> (nat \<Rightarrow> int16_t) \<Rightarrow> (nat \<Rightarrow> int16_t) \<Rightarrow> (nat \<Rightarrow> float) \<Rightarrow> nat \<Rightarrow> Stabilize" where
  "level_state s rcCommand gyroADC eulerAngles axis =
     snd (snd (snd (computeLevelPid_terms s rcCommand gyroADC eulerAngles axis)))"

section \<open>mixer.hpp\<close>

record motorMixer_t =
  throttle :: float
  roll :: float
  pitch :: float
  yaw :: float

record Mixer =
  motorsDisarmed :: "nat \<Rightarrow> int16_t"
  pwmConfig :: PwmConfig
  mixerQuadX :: "nat \<Rightarrow> motorMixer_t"

definition Mixer_init :: "PwmConfig \<Rightarrow> Mixer \<Rightarrow> Mixer" where
  "Mixer_init pc m =
     (let m1 = m\<lparr>mixerQuadX := (mixerQuadX m)
                  (0 := \<lparr>throttle = 1, roll = - 1, pitch = 1, yaw = - 1\<rparr>,
                   1 := \<lparr>throttle = 1, roll = - 1, pitch = - 1, yaw = 1\<rparr>,
                   2 := \<lparr>throttle = 1, roll = 1, pitch = 1, yaw = 1\<rparr>,
                   3 := \<lparr>throttle = 1, roll = 1, pitch = - 1, yaw = - 1\<rparr>)\<rparr>;
          m2 = m1\<lparr>pwmConfig := pc\<rparr>
      in fold (\<lambda>i t. t\<lparr>motorsDisarmed := (motorsDisarmed t)(i := pwm_min (pwmConfig t))\<rparr>) [0 ..< 4] m2)"

text \<open>The first loop of \<open>Mixer::update\<close>: the raw mix of motor \<open>i\<close>, cast to \<open>int16_t\<close>.\<close>

definition mix_raw :: "Mixer \<Rightarrow> RC \<Rightarrow> Stabilize \<Rightarrow> nat \<Rightarrow> int16_t" where
  "mix_raw m rc st i =
     int16_of_float
       (fsub
          (fadd
             (fadd (fmul (float_of_int (sint (command rc DEMAND_THROTTLE))) (throttle (mixerQuadX m i)))
                   (fmul (float_of_int (sint (axisPID st AXIS_PITCH))) (pitch (mixerQuadX m i))))
             (fmul (float_of_int (sint (axisPID st AXIS_ROLL))) (roll (mixerQuadX m i))))
          (fmul (float_of_int (sint (axisPID st AXIS_YAW))) (yaw (mixerQuadX m i))))"

text \<open>The second loop: the largest of the four raw values.\<close>

definition maxMotor_of :: "(nat \<Rightarrow> int16_t) \<Rightarrow> int16_t" where
  "maxMotor_of motors =
     fold (\<lambda>i maxMotor. if sint maxMotor < sint (motors i) then motors i else maxMotor)
       [1 ..< 4] (motors 0)"

text \<open>One round of the third loop, for motor \<open>i\<close>.\<close>

definition motor_round ::
  "Mixer \<Rightarrow> RC \<Rightarrow> bool \<Rightarrow> int16_t \<Rightarrow> nat \<Rightarrow> (nat \<Rightarrow> int16_t) \<Rightarrow> (nat \<Rightarrow> int16_t)" where
  "motor_round m rc armed maxMotor i motors =
     (let motors1 = (if uint (pwm_max (pwmConfig m)) < sint maxMotor
                     then motors(i := int16_of_int
                            (sint (motors i) - (sint maxMotor - uint (pwm_max (pwmConfig m)))))
                     else motors);
          motors2 = motors1(i := int16_of_int
                      (constrain (sint (motors1 i))
                         (uint (pwm_min (pwmConfig m))) (uint (pwm_max (pwmConfig m)))));
          motors3 = (if throttleIsDown rc then motors2(i := pwm_min (pwmConfig m)) else motors2);
          motors4 = (if \<not> armed then motors3(i := motorsDisarmed m i) else motors3)
      in motors4)"

text \<open>
  \<open>Mixer::update\<close> returns nothing and calls \<open>board->writeMotor(i, motors[i])\<close> four times;
  the model returns the calls in order, each with its index and its \<open>uint16_t\<close> argument.
\<close>

definition Mixer_update :: "Mixer \<Rightarrow> RC \<Rightarrow> Stabilize \<Rightarrow> bool \<Rightarrow> (nat \<times> uint16_t) list" where
  "Mixer_update m rc st armed =
     (let motors0 = fold (\<lambda>i motors. motors(i := mix_raw m rc st i)) [0 ..< 4] (\<lambda>_. 0);
          maxMotor = maxMotor_of motors0;
          motors5 = fold (motor_round m rc armed maxMotor) [0 ..< 4] motors0
      in map (\<lambda>i. (i, motors5 i)) [0 ..< 4])"


text \<open>
  A name for the proofs: the value the third loop leaves in \<open>motors[i]\<close>, as a function
  of the raw value it finds there.
\<close>

definition motor_out :: "Mixer \<Rightarrow> RC \<Rightarrow> bool \<Rightarrow> int16_t \<Rightarrow> nat \<Rightarrow> int16_t \<Rightarrow> int16_t" where
  "motor_out m rc armed maxMotor i raw =
     (if \<not> armed then motorsDisarmed m i
      else if throttleIsDown rc then pwm_min (pwmConfig m)
      else int16_of_int
             (constrain
                (sint (if uint (pwm_max (pwmConfig m)) < sint maxMotor
                       then int16_of_int (sint raw - (sint maxMotor - uint (pwm_max (pwmConfig m))))
                       else raw))
                (uint (pwm_min (pwmConfig m))) (uint (pwm_max (pwmConfig m)))))"

section \<open>Example inputs\<close>

text \<open>
  A configuration whose gains are all \<open>1.0f\<close>, so that every product below is an integer
  a \<open>float\<close> holds exactly, and a few stabilizer states and samples.
\<close>

definition pid_example :: PidConfig where
  "pid_example = \<lparr>levelP = 1, ratePitchrollP = 1, ratePitchrollI = 1,
                    ratePitchrollD = 1, yawP = 1, yawI = 1, softwareTrim = (\<lambda>_. 0)\<rparr>"

definition imu_example :: ImuConfig where
  "imu_example = \<lparr>maxAngleInclination = 500\<rparr>"

definition stab_blank :: Stabilize where
  "stab_blank = \<lparr>axisPID = (\<lambda>_. 0), lastGyro = (\<lambda>_. 0), delta1 = (\<lambda>_. 0), delta2 = (\<lambda>_. 0),
                   errorGyroI = (\<lambda>_. 0), errorAngleI = (\<lambda>_. 0),
                   imuConfig = imu_example, pidConfig = pid_example\<rparr>"

text \<open>A state in flight: the last gyro samples were 100, the rate integrals stand at 5000.\<close>

definition stab_stale :: Stabilize where
  "stab_stale = stab_blank\<lparr>lastGyro := (\<lambda>_. 100), errorGyroI := (\<lambda>_. 5000)\<rparr>"

text \<open>A state with a software trim of 5 on every axis.\<close>

definition stab_trim :: Stabilize where
  "stab_trim = stab_blank\<lparr>pidConfig := pid_example\<lparr>softwareTrim := (\<lambda>_. 5)\<rparr>\<rparr>"

text \<open>A state with wound-up integrals and a stale output, its derivative history zero.\<close>

definition stab_wound :: Stabilize where
  "stab_wound = stab_blank\<lparr>errorGyroI := (\<lambda>_. 5000), errorAngleI := (\<lambda>_. 700),
                             axisPID := (\<lambda>_. 42)\<rparr>"

definition still16 :: "nat \<Rightarrow> int16_t" where
  "still16 = (\<lambda>_. 0)"

definition level_euler :: "nat \<Rightarrow> float" where
  "level_euler = (\<lambda>_. 0)"

definition gyro_fast :: "nat \<Rightarrow> int16_t" where
  "gyro_fast = (\<lambda>_. 700)"

text \<open>A state in motion: last gyro samples 100, the two deltas before them 7 and 3.\<close>

definition stab_moving :: Stabilize where
  "stab_moving = stab_blank\<lparr>lastGyro := (\<lambda>_. 100), delta1 := (\<lambda>_. 7), delta2 := (\<lambda>_. 3)\<rparr>"

definition gyro_130 :: "nat \<Rightarrow> int16_t" where
  "gyro_130 = (\<lambda>_. 130)"

text \<open>
  A mixer initialised for PWM values 1000 to 2000; the same after a ground station has
  set the first disarmed value to 2500; and one initialised with the bounds swapped.
\<close>

definition pwm_example :: PwmConfig where
  "pwm_example = \<lparr>pwm_min = 1000, pwm_max = 2000\<rparr>"

definition mixer_blank :: Mixer where
  "mixer_blank = \<lparr>motorsDisarmed = (\<lambda>_. 0), pwmConfig = \<lparr>pwm_min = 0, pwm_max = 0\<rparr>,
                    mixerQuadX = (\<lambda>_. \<lparr>throttle = 0, roll = 0, pitch = 0, yaw = 0\<rparr>)\<rparr>"

definition mixer_example :: Mixer where
  "mixer_example = Mixer_init pwm_example mixer_blank"

definition mixer_msp :: Mixer where
  "mixer_msp = mixer_example\<lparr>motorsDisarmed := (motorsDisarmed mixer_example)(0 := 2500)\<rparr>"

definition mixer_inverted :: Mixer where
  "mixer_inverted = Mixer_init \<lparr>pwm_min = 2000, pwm_max = 1000\<rparr> mixer_blank"

text \<open>
  The receiver at idle and in a climb, and stabilizer outputs: with a throttle of 1900
  and corrections of -100, 100, 100 the raw mix is 2200 for the first motor and 1800 for
  the others; with a throttle and a pitch correction of 20000 the first raw mix is 40000.
\<close>

definition rc_idle :: RC where
  "rc_idle = \<lparr>command = (\<lambda>_. 0)(DEMAND_THROTTLE := 1000), throttleIsDown = True\<rparr>"

definition rc_climb :: RC where
  "rc_climb = \<lparr>command = (\<lambda>_. 0)(DEMAND_THROTTLE := 1900), throttleIsDown = False\<rparr>"

definition rc_full :: RC where
  "rc_full = \<lparr>command = (\<lambda>_. 0)(DEMAND_THROTTLE := 20000), throttleIsDown = False\<rparr>"

definition stab_correcting :: Stabilize where
  "stab_correcting =
     stab_blank\<lparr>axisPID := (\<lambda>_. 0)(AXIS_ROLL := - 100, AXIS_PITCH := 100, AXIS_YAW := 100)\<rparr>"

definition stab_pitching :: Stabilize where
  "stab_pitching = stab_blank\<lparr>axisPID := (\<lambda>_. 0)(AXIS_PITCH := 20000)\<rparr>"

section \<open>Facts about the machine numbers\<close>

lemmas index_defs = AXIS_ROLL_def AXIS_PITCH_def AXIS_YAW_def
  DEMAND_ROLL_def DEMAND_PITCH_def DEMAND_YAW_def DEMAND_THROTTLE_def

lemmas example_defs = pid_example_def imu_example_def stab_blank_def stab_stale_def stab_trim_def
  stab_wound_def still16_def level_euler_def gyro_fast_def

lemma sint_int32_of_int:
  "- 2147483648 \<le> k \<Longrightarrow> k < 2147483648 \<Longrightarrow> sint (int32_of_int k) = k"
  by (simp add: int32_of_int_def sint_sbintrunc' signed_take_bit_int_eq_self)

lemma sint_int16_of_int:
  "- 32768 \<le> k \<Longrightarrow> k < 32768 \<Longrightarrow> sint (int16_of_int k) = k"
  by (simp add: int16_of_int_def sint_sbintrunc' signed_take_bit_int_eq_self)

lemma sint16_bounds: "- 32768 \<le> sint (w :: int16_t) \<and> sint w < 32768"
  using sint_ge [of w] sint_lt [of w] by simp

lemma sint32_bounds: "- 2147483648 \<le> sint (w :: int32_t) \<and> sint w < 2147483648"
  using sint_ge [of w] sint_lt [of w] by simp

lemma uint16_bounds: "0 \<le> uint (w :: uint16_t) \<and> uint w < 65536"
  using uint_lt2p [of w] by simp

lemma constrain_bounds:
  "low \<le> high \<Longrightarrow> low \<le> constrain amt low high \<and> constrain amt low high \<le> high"
  by (simp add: constrain_def)

lemma constrain_id: "low \<le> amt \<Longrightarrow> amt \<le> high \<Longrightarrow> constrain amt low high = amt"
  by (simp add: constrain_def)

lemma abs_constrain: "0 \<le> n \<Longrightarrow> \<bar>constrain amt (- n) n\<bar> \<le> n"
  by (auto simp: constrain_def)

lemma sint_constrain32:
  "- 2147483648 \<le> low \<Longrightarrow> low \<le> high \<Longrightarrow> high < 2147483648 \<Longrightarrow>
     sint (int32_of_int (constrain amt low high)) = constrain amt low high"
  by (rule sint_int32_of_int) (auto simp: constrain_def)

subsection \<open>Rounding leaves small integers alone\<close>

lemma bitlen_le: "n < 2 ^ m \<Longrightarrow> bitlen n \<le> int m"
proof (induction m arbitrary: n)
  case 0
  then show ?case by (simp add: bitlen.simps)
next
  case (Suc m)
  show ?case
  proof (cases "n \<le> 0")
    case True
    then show ?thesis by (simp add: bitlen.simps)
  next
    case False
    from Suc.prems have "n div 2 < 2 ^ m" by simp
    then have "bitlen (n div 2) \<le> int m" by (rule Suc.IH)
    with False show ?thesis by (subst bitlen.simps) simp
  qed
qed

lemma bitlen_1: "bitlen 1 = 1"
  by (simp add: bitlen.simps)

lemma ilog2_of_int_le:
  assumes "k < 2 ^ 24"
  shows "ilog2 (of_int k) \<le> 23"
proof -
  have "bitlen k \<le> 24" using bitlen_le [OF assms] by simp
  then show ?thesis
    by (simp add: ilog2_def Let_def bitlen_1)
qed

lemma round_even_of_int: "round_even (of_int j) = j"
  by (simp add: round_even_def)

lemma f32_of_int:
  assumes "\<bar>k\<bar> < 2 ^ 24"
  shows "f32 (of_int k) = of_int k"
proof (cases "k = 0")
  case True
  then show ?thesis by (simp add: f32_def)
next
  case False
  define q where "q = max (ilog2 \<bar>of_int k\<bar> - 23) (- 149)"
  have "ilog2 \<bar>of_int k :: rat\<bar> \<le> 23"
    using ilog2_of_int_le [of "\<bar>k\<bar>"] assms by simp
  then have q: "q \<le> 0" "- 149 \<le> q" by (simp_all add: q_def)
  define n where "n = nat (- q)"
  have qn: "q = - int n" using q by (simp add: n_def)
  have p: "(2::rat) powi q = 1 / 2 ^ n"
    by (simp add: qn power_int_minus field_simps)
  have "\<bar>of_int k :: rat\<bar> / 2 powi q = of_int (\<bar>k\<bar> * 2 ^ n)"
    by (simp add: p)
  then have r: "round_even (\<bar>of_int k :: rat\<bar> / 2 powi q) = \<bar>k\<bar> * 2 ^ n"
    by (simp only: round_even_of_int)
  have "f32 (of_int k) =
          sgn (of_int k) * of_int (round_even (\<bar>of_int k :: rat\<bar> / 2 powi q)) * 2 powi q"
    using False by (simp add: f32_def Let_def q_def)
  also have "\<dots> = sgn (of_int k) * of_int (\<bar>k\<bar> * 2 ^ n) * (1 / 2 ^ n)"
    by (subst r) (simp only: p)
  also have "\<dots> = of_int k"
    by (simp add: sgn_if)
  finally show ?thesis .
qed

lemma f32_numeral:
  "numeral n < (16777216::int) \<Longrightarrow> f32 (numeral n) = numeral n"
  "numeral n < (16777216::int) \<Longrightarrow> f32 (- numeral n) = - numeral n"
  "f32 1 = 1" "f32 (- 1) = - 1" "f32 0 = 0"
  using f32_of_int [of "numeral n"] f32_of_int [of "- numeral n"] f32_of_int [of 1]
    f32_of_int [of "- 1"] f32_of_int [of 0]
  by simp_all

text \<open>The rounding at work: \<open>0.1f\<close>, and ties going to the even neighbour above \<open>2 ^ 24\<close>.\<close>

lemma f32_examples:
  "f32 (1 / 10) = 13421773 / 134217728"
  "f32 16777217 = 16777216"
  "f32 16777219 = 16777220"
  "f32 (25 / 2) = 25 / 2"
  by code_simp+

lemmas float_defs = float_of_int_def fmul_def fsub_def fadd_def trunc_def int32_of_float_def
  int16_of_float_def int32_of_int_def int16_of_int_def div32_def

lemma float_zero:
  "float_of_int 0 = 0" "fmul 0 x = 0" "fmul x 0 = 0" "fsub 0 0 = 0" "fadd 0 0 = 0"
  by (simp_all add: float_of_int_def fmul_def fsub_def fadd_def f32_numeral)

lemma conv_zero:
  "trunc 0 = 0" "int32_of_int 0 = 0" "int16_of_int 0 = 0" "int32_of_float 0 = 0"
  "int16_of_float 0 = 0" "div32 0 500 = 0"
  by (simp_all add: float_defs)

lemma constrain_zero_uint: "constrain 0 (- uint w) (uint w) = 0"
  by (simp add: constrain_def)

section \<open>The stabilizer, function by function\<close>

lemma axes_distinct:
  "AXIS_ROLL \<noteq> AXIS_PITCH" "AXIS_ROLL \<noteq> AXIS_YAW" "AXIS_PITCH \<noteq> AXIS_YAW"
  "AXIS_PITCH \<noteq> AXIS_ROLL" "AXIS_YAW \<noteq> AXIS_ROLL" "AXIS_YAW \<noteq> AXIS_PITCH"
  by (simp_all add: index_defs)

lemma resetIntegral_eq:
  "resetIntegral s =
     s\<lparr>errorGyroI := (errorGyroI s)(AXIS_ROLL := 0, AXIS_PITCH := 0, AXIS_YAW := 0),
       errorAngleI := (errorAngleI s)(AXIS_ROLL := 0, AXIS_PITCH := 0)\<rparr>"
  by (simp add: resetIntegral_def Let_def)

lemma Stabilize_init_fields:
  "pidConfig (Stabilize_init pc ic s) = pc"
  "imuConfig (Stabilize_init pc ic s) = ic"
  "lastGyro (Stabilize_init pc ic s) = (lastGyro s)(0 := 0, 1 := 0)"
  "delta1 (Stabilize_init pc ic s) = (delta1 s)(0 := 0, 1 := 0)"
  "delta2 (Stabilize_init pc ic s) = (delta2 s)(0 := 0, 1 := 0)"
  by (simp_all add: Stabilize_init_def resetIntegral_eq Let_def upt_rec)

lemma computeITermGyro_eq:
  "computeITermGyro s rateP rateI rcCommand gyroADC axis =
     (signed_drop_bit 6 (int32_of_float (fmul (float_of_int
          (sint (gyroI_next (errorGyroI s axis) rateP rcCommand gyroADC axis))) rateI)),
      s\<lparr>errorGyroI := (errorGyroI s)
           (axis := gyroI_next (errorGyroI s axis) rateP rcCommand gyroADC axis)\<rparr>)"
  by (auto simp add: computeITermGyro_def gyroI_next_def Let_def)

lemma gyroI_next_bound: "\<bar>sint (gyroI_next acc rateP rcCommand gyroADC axis)\<bar> \<le> 16000"
  by (simp add: gyroI_next_def sint_constrain32 abs_constrain)

lemma gyroI_next_zero:
  "640 < \<bar>sint (gyroADC axis)\<bar> \<or> (axis = AXIS_YAW \<and> 100 < \<bar>sint (rcCommand axis)\<bar>) \<Longrightarrow>
   gyroI_next acc rateP rcCommand gyroADC axis = 0"
  by (simp add: gyroI_next_def)

lemma gyroI_next_still:
  "rcCommand axis = 0 \<Longrightarrow> gyroADC axis = 0 \<Longrightarrow> gyroI_next 0 rateP rcCommand gyroADC axis = 0"
  by (simp add: gyroI_next_def float_zero conv_zero constrain_def)

lemma level_state_errorGyroI:
  "errorGyroI (level_state s rc g e axis) =
     (errorGyroI s)(axis := gyroI_next (errorGyroI s axis) (ratePitchrollP (pidConfig s)) rc g axis)"
  by (simp add: level_state_def computeLevelPid_terms_def computeITermGyro_eq Let_def)

lemma level_state_errorAngleI_bound:
  "\<bar>sint (errorAngleI (level_state s rc g e axis) axis)\<bar> \<le> 10000"
  by (simp add: level_state_def computeLevelPid_terms_def computeITermGyro_eq Let_def
      sint_constrain32 abs_constrain)

lemma level_state_errorAngleI_other:
  "a \<noteq> axis \<Longrightarrow> errorAngleI (level_state s rc g e axis) a = errorAngleI s a"
  by (simp add: level_state_def computeLevelPid_terms_def computeITermGyro_eq Let_def)

lemma level_state_frame:
  "axisPID (level_state s rc g e axis) = axisPID s"
  "imuConfig (level_state s rc g e axis) = imuConfig s"
  "pidConfig (level_state s rc g e axis) = pidConfig s"
  by (simp_all add: level_state_def computeLevelPid_terms_def computeITermGyro_eq Let_def)

lemma level_state_history:
  "lastGyro (level_state s rc g e axis) = (lastGyro s)(axis := g axis)"
  "delta1 (level_state s rc g e axis) =
     (delta1 s)(axis := int32_of_int (sint (g axis) - sint (lastGyro s axis)))"
  "delta2 (level_state s rc g e axis) = (delta2 s)(axis := delta1 s axis)"
  by (simp_all add: level_state_def computeLevelPid_terms_def computeITermGyro_eq Let_def)

lemma snd_computeLevelPid: "snd (computeLevelPid s rc g e axis) = level_state s rc g e axis"
  by (simp add: computeLevelPid_def level_state_def split_beta)

lemmas level_simps = snd_computeLevelPid level_state_errorGyroI level_state_errorAngleI_other
  level_state_frame level_state_history

lemma computePid_cong: "pidConfig s = pidConfig t \<Longrightarrow> computePid s = computePid t"
  by (intro ext) (simp add: computePid_def)

lemma computeLevelPid_terms_cong:
  assumes "errorGyroI s axis = errorGyroI t axis" "errorAngleI s axis = errorAngleI t axis"
    "lastGyro s axis = lastGyro t axis" "delta1 s axis = delta1 t axis" "delta2 s axis = delta2 t axis"
    "imuConfig s = imuConfig t" "pidConfig s = pidConfig t"
  shows "fst (computeLevelPid_terms s rc g e axis) = fst (computeLevelPid_terms t rc g e axis) \<and>
         fst (snd (computeLevelPid_terms s rc g e axis)) = fst (snd (computeLevelPid_terms t rc g e axis)) \<and>
         fst (snd (snd (computeLevelPid_terms s rc g e axis))) =
           fst (snd (snd (computeLevelPid_terms t rc g e axis)))"
  using assms
  by (simp add: computeLevelPid_terms_def computeITermGyro_eq Let_def)

lemma fst_computeLevelPid:
  "fst (computeLevelPid s rc g e axis) =
     computePid s (ratePitchrollP (pidConfig s))
       (fst (computeLevelPid_terms s rc g e axis))
       (fst (snd (computeLevelPid_terms s rc g e axis)))
       (fst (snd (snd (computeLevelPid_terms s rc g e axis)))) g axis"
proof -
  have "pidConfig (level_state s rc g e axis) = pidConfig s" by (simp add: level_state_frame)
  then show ?thesis
    by (simp add: computeLevelPid_def split_beta computePid_cong [of "level_state s rc g e axis" s]
        flip: level_state_def)
qed

lemma fst_computeLevelPid_cong:
  assumes "errorGyroI s axis = errorGyroI t axis" "errorAngleI s axis = errorAngleI t axis"
    "lastGyro s axis = lastGyro t axis" "delta1 s axis = delta1 t axis" "delta2 s axis = delta2 t axis"
    "imuConfig s = imuConfig t" "pidConfig s = pidConfig t"
  shows "fst (computeLevelPid s rc g e axis) = fst (computeLevelPid t rc g e axis)"
  using computeLevelPid_terms_cong [OF assms, of rc g e] assms(7)
  by (simp add: fst_computeLevelPid computePid_cong [of s t])

lemma update_axisPID_roll:
  "axisPID (Stabilize_update s rc g e) AXIS_ROLL = fst (computeLevelPid s rc g e AXIS_ROLL)"
  by (simp add: Stabilize_update_def computeITermGyro_eq Let_def split_beta level_simps axes_distinct)

lemma update_axisPID_pitch:
  "axisPID (Stabilize_update s rc g e) AXIS_PITCH = fst (computeLevelPid s rc g e AXIS_PITCH)"
proof -
  let ?s2 = "(snd (computeLevelPid s rc g e AXIS_ROLL))
               \<lparr>axisPID := (axisPID (snd (computeLevelPid s rc g e AXIS_ROLL)))
                  (AXIS_ROLL := fst (computeLevelPid s rc g e AXIS_ROLL))\<rparr>"
  have "axisPID (Stabilize_update s rc g e) AXIS_PITCH = fst (computeLevelPid ?s2 rc g e AXIS_PITCH)"
    by (simp add: Stabilize_update_def computeITermGyro_eq Let_def split_beta level_simps axes_distinct)
  also have "\<dots> = fst (computeLevelPid s rc g e AXIS_PITCH)"
    by (rule fst_computeLevelPid_cong) (simp_all add: level_simps axes_distinct)
  finally show ?thesis .
qed

lemma update_history:
  assumes "axis = AXIS_ROLL \<or> axis = AXIS_PITCH"
  shows "lastGyro (Stabilize_update s rc g e) axis = g axis"
    and "delta1 (Stabilize_update s rc g e) axis = int32_of_int (sint (g axis) - sint (lastGyro s axis))"
    and "delta2 (Stabilize_update s rc g e) axis = delta1 s axis"
  using assms
  by (auto simp add: Stabilize_update_def computeITermGyro_eq Let_def split_beta level_simps axes_distinct)

lemma update_errorGyroI:
  "errorGyroI (Stabilize_update s rc g e) AXIS_ROLL =
     gyroI_next (errorGyroI s AXIS_ROLL) (ratePitchrollP (pidConfig s)) rc g AXIS_ROLL"
  "errorGyroI (Stabilize_update s rc g e) AXIS_PITCH =
     gyroI_next (errorGyroI s AXIS_PITCH) (ratePitchrollP (pidConfig s)) rc g AXIS_PITCH"
  "errorGyroI (Stabilize_update s rc g e) AXIS_YAW =
     gyroI_next (errorGyroI s AXIS_YAW) (yawP (pidConfig s)) rc g AXIS_YAW"
  by (simp_all add: Stabilize_update_def computeITermGyro_eq Let_def split_beta level_simps axes_distinct)

lemma computePid_still:
  "gyroADC axis = 0 \<Longrightarrow>
   computePid s rateP 0 ITerm DTerm gyroADC axis =
     int16_of_int (sint (ITerm - DTerm + int32_of_int (sint (softwareTrim (pidConfig s) axis))))"
  by (simp add: computePid_def float_zero conv_zero)

lemma computeLevelPid_terms_still:
  assumes "rcCommand AXIS_ROLL = 0" "rcCommand AXIS_PITCH = 0" "gyroADC axis = 0" "eulerAngles axis = 0"
    and "axis = AXIS_ROLL \<or> axis = AXIS_PITCH"
  shows "fst (computeLevelPid_terms s rcCommand gyroADC eulerAngles axis) = 0"
    and "fst (snd (computeLevelPid_terms s rcCommand gyroADC eulerAngles axis)) = 0"
    and "fst (snd (snd (computeLevelPid_terms s rcCommand gyroADC eulerAngles axis))) =
           int32_of_float (fmul (float_of_int (sint (delta1 s axis + delta2 s axis +
               int32_of_int (- sint (lastGyro s axis))))) (ratePitchrollD (pidConfig s)))"
proof -
  have rc: "rcCommand axis = 0" "rcCommand DEMAND_PITCH = 0" "rcCommand DEMAND_ROLL = 0"
    using assms by (auto simp: index_defs)
  show "fst (computeLevelPid_terms s rcCommand gyroADC eulerAngles axis) = 0"
    using assms(3,4) rc
    by (simp add: computeLevelPid_terms_def computeITermGyro_eq Let_def float_zero conv_zero
        constrain_zero_uint)
  show "fst (snd (computeLevelPid_terms s rcCommand gyroADC eulerAngles axis)) = 0"
    using assms(3,4) rc
    by (simp add: computeLevelPid_terms_def computeITermGyro_eq Let_def float_zero conv_zero)
  show "fst (snd (snd (computeLevelPid_terms s rcCommand gyroADC eulerAngles axis))) =
           int32_of_float (fmul (float_of_int (sint (delta1 s axis + delta2 s axis +
               int32_of_int (- sint (lastGyro s axis))))) (ratePitchrollD (pidConfig s)))"
    using assms(3,4) rc
    by (simp add: computeLevelPid_terms_def computeITermGyro_eq Let_def)
qed

lemma still_correction:
  assumes "rcCommand AXIS_ROLL = 0" "rcCommand AXIS_PITCH = 0" "gyroADC axis = 0" "eulerAngles axis = 0"
    and "axis = AXIS_ROLL \<or> axis = AXIS_PITCH"
  shows "axisPID (Stabilize_update s rcCommand gyroADC eulerAngles) axis =
           int16_of_int (sint (int32_of_int (sint (softwareTrim (pidConfig s) axis)) -
             int32_of_float (fmul (float_of_int (sint (delta1 s axis + delta2 s axis +
               int32_of_int (- sint (lastGyro s axis))))) (ratePitchrollD (pidConfig s)))))"
proof -
  have "axisPID (Stabilize_update s rcCommand gyroADC eulerAngles) axis =
          fst (computeLevelPid s rcCommand gyroADC eulerAngles axis)"
    using assms(5) by (auto simp: update_axisPID_roll update_axisPID_pitch)
  then show ?thesis
    using assms
    by (simp add: fst_computeLevelPid computeLevelPid_terms_still computePid_still)
qed

lemma yaw_correction_still:
  assumes "rcCommand AXIS_YAW = 0" "gyroADC AXIS_YAW = 0" "errorGyroI s AXIS_YAW = 0"
  shows "axisPID (Stabilize_update s rcCommand gyroADC eulerAngles) AXIS_YAW =
           int16_of_int (constrain (sint (softwareTrim (pidConfig s) AXIS_YAW)) (- 100) 100)"
proof -
  have yaw: "DEMAND_YAW = AXIS_YAW" by (simp add: index_defs)
  have t: "sint (int32_of_int (sint (softwareTrim (pidConfig s) AXIS_YAW))) =
             sint (softwareTrim (pidConfig s) AXIS_YAW)"
    using sint16_bounds [of "softwareTrim (pidConfig s) AXIS_YAW"]
    by (intro sint_int32_of_int) simp_all
  have n: "int16_of_int (sint (softwareTrim (pidConfig s) AXIS_YAW)) = softwareTrim (pidConfig s) AXIS_YAW"
    by (simp add: int16_of_int_def)
  show ?thesis
    using assms
    by (simp add: Stabilize_update_def computeITermGyro_eq Let_def split_beta level_simps yaw axes_distinct
        gyroI_next_still computePid_still float_zero conv_zero t n)
qed

section \<open>Claims about the stabilizer\<close>

text \<open>
  Claim C2. After every \<open>Stabilize::update\<close>, whatever the inputs and the state before,
  the rate integral of each of the three axes is at most 16000 in magnitude, and the angle
  integral of roll and of pitch is at most 10000 in magnitude.
\<close>

theorem integrals_bounded:
  "\<bar>sint (errorGyroI (Stabilize_update s rcCommand gyroADC eulerAngles) AXIS_ROLL)\<bar> \<le> 16000 \<and>
   \<bar>sint (errorGyroI (Stabilize_update s rcCommand gyroADC eulerAngles) AXIS_PITCH)\<bar> \<le> 16000 \<and>
   \<bar>sint (errorGyroI (Stabilize_update s rcCommand gyroADC eulerAngles) AXIS_YAW)\<bar> \<le> 16000 \<and>
   \<bar>sint (errorAngleI (Stabilize_update s rcCommand gyroADC eulerAngles) AXIS_ROLL)\<bar> \<le> 10000 \<and>
   \<bar>sint (errorAngleI (Stabilize_update s rcCommand gyroADC eulerAngles) AXIS_PITCH)\<bar> \<le> 10000"
proof -
  have "\<bar>sint (errorAngleI (Stabilize_update s rcCommand gyroADC eulerAngles) AXIS_ROLL)\<bar> \<le> 10000"
    by (simp add: Stabilize_update_def computeITermGyro_eq Let_def split_beta level_simps axes_distinct
        level_state_errorAngleI_bound)
  moreover
  have "\<bar>sint (errorAngleI (Stabilize_update s rcCommand gyroADC eulerAngles) AXIS_PITCH)\<bar> \<le> 10000"
    by (simp add: Stabilize_update_def computeITermGyro_eq Let_def split_beta snd_computeLevelPid
        level_state_errorAngleI_bound)
  ultimately show ?thesis
    by (simp add: update_errorGyroI gyroI_next_bound)
qed

text \<open>
  Claim C3. On every tick: a roll or pitch gyro rate of magnitude above 640 leaves that
  axis's rate integral at exactly 0; a yaw gyro rate of magnitude above 640, or a yaw stick
  demand of magnitude above 100, leaves the yaw rate integral at exactly 0.
\<close>

theorem windup_guard:
  "(640 < \<bar>sint (gyroADC AXIS_ROLL)\<bar> \<longrightarrow>
      errorGyroI (Stabilize_update s rcCommand gyroADC eulerAngles) AXIS_ROLL = 0) \<and>
   (640 < \<bar>sint (gyroADC AXIS_PITCH)\<bar> \<longrightarrow>
      errorGyroI (Stabilize_update s rcCommand gyroADC eulerAngles) AXIS_PITCH = 0) \<and>
   (640 < \<bar>sint (gyroADC AXIS_YAW)\<bar> \<or> 100 < \<bar>sint (rcCommand DEMAND_YAW)\<bar> \<longrightarrow>
      errorGyroI (Stabilize_update s rcCommand gyroADC eulerAngles) AXIS_YAW = 0)"
proof -
  have yaw: "DEMAND_YAW = AXIS_YAW" by (simp add: index_defs)
  show ?thesis
    by (auto simp add: update_errorGyroI yaw gyroI_next_zero)
qed

text \<open>
  At a gyro sample of 700 on every axis, from a state whose rate integrals stand at 5000.
\<close>

theorem windup_guard_witness:
  "640 < \<bar>sint (gyro_fast AXIS_ROLL)\<bar> \<and> 640 < \<bar>sint (gyro_fast AXIS_PITCH)\<bar> \<and>
   640 < \<bar>sint (gyro_fast AXIS_YAW)\<bar> \<and>
   errorGyroI stab_stale AXIS_ROLL = 5000 \<and>
   errorGyroI (Stabilize_update stab_stale still16 gyro_fast level_euler) AXIS_ROLL = 0 \<and>
   errorGyroI (Stabilize_update stab_stale still16 gyro_fast level_euler) AXIS_PITCH = 0 \<and>
   errorGyroI (Stabilize_update stab_stale still16 gyro_fast level_euler) AXIS_YAW = 0"
proof -
  have h: "640 < \<bar>sint (gyro_fast AXIS_ROLL)\<bar>" "640 < \<bar>sint (gyro_fast AXIS_PITCH)\<bar>"
    "640 < \<bar>sint (gyro_fast AXIS_YAW)\<bar>"
    by (simp_all add: gyro_fast_def)
  have "errorGyroI stab_stale AXIS_ROLL = 5000"
    by (simp add: stab_stale_def)
  with h show ?thesis
    using windup_guard [of gyro_fast stab_stale still16 level_euler] by simp
qed

text \<open>
  Claim C4, amended. \<open>resetIntegral\<close> leaves the derivative history alone and
  \<open>computePid\<close> adds the software trim, so the claim needs both to be zero: for every
  configuration with zero software trim and every prior state whose roll and pitch
  derivative history (\<open>lastGyro\<close>, \<open>delta1\<close>, \<open>delta2\<close>) is zero, \<open>resetIntegral\<close> followed
  by one \<open>update\<close> with all stick demands, gyro samples and Euler angles zero yields a
  correction of exactly zero on each of the three axes.
\<close>

theorem cold_start:
  assumes sticks: "\<forall>i<4. rcCommand i = 0"
    and gyro: "\<forall>i<3. gyroADC i = 0"
    and euler: "\<forall>i<3. eulerAngles i = 0"
    and trim: "\<forall>i<3. softwareTrim (pidConfig s) i = 0"
    and history: "\<forall>i<2. lastGyro s i = 0 \<and> delta1 s i = 0 \<and> delta2 s i = 0"
  shows "axisPID (Stabilize_update (resetIntegral s) rcCommand gyroADC eulerAngles) AXIS_ROLL = 0 \<and>
         axisPID (Stabilize_update (resetIntegral s) rcCommand gyroADC eulerAngles) AXIS_PITCH = 0 \<and>
         axisPID (Stabilize_update (resetIntegral s) rcCommand gyroADC eulerAngles) AXIS_YAW = 0"
proof -
  have rc: "rcCommand AXIS_ROLL = 0" "rcCommand AXIS_PITCH = 0" "rcCommand AXIS_YAW = 0"
    using sticks by (simp_all add: index_defs)
  have g: "gyroADC AXIS_ROLL = 0" "gyroADC AXIS_PITCH = 0" "gyroADC AXIS_YAW = 0"
    using gyro by (simp_all add: index_defs)
  have e: "eulerAngles AXIS_ROLL = 0" "eulerAngles AXIS_PITCH = 0"
    using euler by (simp_all add: index_defs)
  have t: "softwareTrim (pidConfig s) AXIS_ROLL = 0" "softwareTrim (pidConfig s) AXIS_PITCH = 0"
    "softwareTrim (pidConfig s) AXIS_YAW = 0"
    using trim by (simp_all add: index_defs)
  have h: "lastGyro s AXIS_ROLL = 0" "delta1 s AXIS_ROLL = 0" "delta2 s AXIS_ROLL = 0"
    "lastGyro s AXIS_PITCH = 0" "delta1 s AXIS_PITCH = 0" "delta2 s AXIS_PITCH = 0"
    using history by (simp_all add: index_defs)
  have "axisPID (Stabilize_update (resetIntegral s) rcCommand gyroADC eulerAngles) AXIS_ROLL = 0"
    by (subst still_correction) (simp_all add: rc g e t h resetIntegral_eq float_zero conv_zero)
  moreover
  have "axisPID (Stabilize_update (resetIntegral s) rcCommand gyroADC eulerAngles) AXIS_PITCH = 0"
    by (subst still_correction) (simp_all add: rc g e t h resetIntegral_eq float_zero conv_zero)
  moreover
  have "axisPID (Stabilize_update (resetIntegral s) rcCommand gyroADC eulerAngles) AXIS_YAW = 0"
    by (subst yaw_correction_still) (simp_all add: rc g t resetIntegral_eq conv_zero constrain_def)
  ultimately show ?thesis by simp
qed

text \<open>From a state with wound-up integrals, zero history and zero trim.\<close>

theorem cold_start_witness:
  "errorGyroI stab_wound AXIS_ROLL = 5000 \<and>
   axisPID (Stabilize_update (resetIntegral stab_wound) still16 still16 level_euler) AXIS_ROLL = 0 \<and>
   axisPID (Stabilize_update (resetIntegral stab_wound) still16 still16 level_euler) AXIS_PITCH = 0 \<and>
   axisPID (Stabilize_update (resetIntegral stab_wound) still16 still16 level_euler) AXIS_YAW = 0"
proof -
  have a: "\<forall>i<4. still16 i = 0" "\<forall>i<3. still16 i = 0" "\<forall>i<3. level_euler i = 0"
    by (simp_all add: still16_def level_euler_def)
  have b: "\<forall>i<3. softwareTrim (pidConfig stab_wound) i = 0"
    by (simp add: stab_wound_def stab_blank_def pid_example_def)
  have c: "\<forall>i<2. lastGyro stab_wound i = 0 \<and> delta1 stab_wound i = 0 \<and> delta2 stab_wound i = 0"
    by (simp add: stab_wound_def stab_blank_def)
  have d: "errorGyroI stab_wound AXIS_ROLL = 5000"
    by (simp add: stab_wound_def)
  show ?thesis
    using cold_start [OF a b c] d by simp
qed

text \<open>
  The claim as first stated fails: with a last roll gyro sample of 100 and zero trim the
  roll correction after reset and a zero tick is 100 (the derivative of the drop from 100
  to 0, at gain 1), and with zero history and a trim of 5 it is 5.
\<close>

theorem cold_start_counterexample:
  "axisPID (Stabilize_update (resetIntegral stab_stale) still16 still16 level_euler) AXIS_ROLL = 100 \<and>
   axisPID (Stabilize_update (resetIntegral stab_trim) still16 still16 level_euler) AXIS_ROLL = 5"
proof -
  have "axisPID (Stabilize_update (resetIntegral stab_stale) still16 still16 level_euler) AXIS_ROLL = 100"
    by (subst still_correction)
      (simp_all add: resetIntegral_eq example_defs float_defs f32_numeral)
  moreover
  have "axisPID (Stabilize_update (resetIntegral stab_trim) still16 still16 level_euler) AXIS_ROLL = 5"
    by (subst still_correction)
      (simp_all add: resetIntegral_eq example_defs float_defs f32_numeral)
  ultimately show ?thesis by simp
qed

text \<open>
  Claim C5. \<open>Stabilize::resetIntegral\<close> zeroes every rate and angle integral accumulator
  (three rate integrals, two angle integrals) and leaves \<open>lastGyro\<close>, \<open>delta1\<close>, \<open>delta2\<close>,
  \<open>axisPID\<close> and both configuration snapshots as they were, from every starting state.
\<close>

theorem resetIntegral_frame:
  "errorGyroI (resetIntegral s) AXIS_ROLL = 0 \<and>
   errorGyroI (resetIntegral s) AXIS_PITCH = 0 \<and>
   errorGyroI (resetIntegral s) AXIS_YAW = 0 \<and>
   errorAngleI (resetIntegral s) AXIS_ROLL = 0 \<and>
   errorAngleI (resetIntegral s) AXIS_PITCH = 0 \<and>
   lastGyro (resetIntegral s) = lastGyro s \<and>
   delta1 (resetIntegral s) = delta1 s \<and>
   delta2 (resetIntegral s) = delta2 s \<and>
   axisPID (resetIntegral s) = axisPID s \<and>
   imuConfig (resetIntegral s) = imuConfig s \<and>
   pidConfig (resetIntegral s) = pidConfig s"
  by (simp add: resetIntegral_def Let_def)

text \<open>
  Claim C9. For roll and for pitch, on every tick, the derivative term is
  \<open>(delta1 + delta2 + (gyroADC - lastGyro)) * ratePitchrollD\<close>: the sum of the three most
  recent gyro deltas, taken in \<open>int32_t\<close>, times the gain in \<open>float\<close>, the product
  truncated into the \<open>int32_t\<close> variable \<open>DTerm\<close>; that term is the one \<open>computePid\<close>
  subtracts for the axis's output. After the tick \<open>delta1\<close> holds this tick's delta,
  \<open>delta2\<close> the one before, and \<open>lastGyro\<close> the current sample.
\<close>

theorem derivative_term:
  assumes "axis = AXIS_ROLL \<or> axis = AXIS_PITCH"
  shows "let delta = int32_of_int (sint (gyroADC axis) - sint (lastGyro s axis));
             DTerm = int32_of_float
                       (fmul (float_of_int (sint (delta1 s axis + delta2 s axis + delta)))
                             (ratePitchrollD (pidConfig s)));
             (PTerm, ITerm, DTerm', s5) = computeLevelPid_terms s rcCommand gyroADC eulerAngles axis;
             s' = Stabilize_update s rcCommand gyroADC eulerAngles
         in DTerm' = DTerm \<and>
            axisPID s' axis = computePid s (ratePitchrollP (pidConfig s)) PTerm ITerm DTerm gyroADC axis \<and>
            delta1 s' axis = delta \<and> delta2 s' axis = delta1 s axis \<and> lastGyro s' axis = gyroADC axis"
proof -
  have d: "fst (snd (snd (computeLevelPid_terms s rcCommand gyroADC eulerAngles axis))) =
             int32_of_float
               (fmul (float_of_int (sint (delta1 s axis + delta2 s axis +
                   int32_of_int (sint (gyroADC axis) - sint (lastGyro s axis)))))
                 (ratePitchrollD (pidConfig s)))"
    by (simp add: computeLevelPid_terms_def computeITermGyro_eq Let_def)
  have a: "axisPID (Stabilize_update s rcCommand gyroADC eulerAngles) axis =
             fst (computeLevelPid s rcCommand gyroADC eulerAngles axis)"
    using assms by (auto simp: update_axisPID_roll update_axisPID_pitch)
  show ?thesis
    using d by (simp add: Let_def split_beta a fst_computeLevelPid update_history [OF assms])
qed

text \<open>
  From last sample 100 and deltas 7 and 3, a sample of 130 gives the delta 30 and, at
  gain 1, the derivative term 40.
\<close>

theorem derivative_term_witness:
  "fst (snd (snd (computeLevelPid_terms stab_moving still16 gyro_130 level_euler AXIS_ROLL))) = 40 \<and>
   delta1 (Stabilize_update stab_moving still16 gyro_130 level_euler) AXIS_ROLL = 30 \<and>
   delta2 (Stabilize_update stab_moving still16 gyro_130 level_euler) AXIS_ROLL = 7 \<and>
   lastGyro (Stabilize_update stab_moving still16 gyro_130 level_euler) AXIS_ROLL = 130"
  using derivative_term [of AXIS_ROLL gyro_130 stab_moving still16 level_euler]
  by (simp add: Let_def split_beta stab_moving_def gyro_130_def example_defs float_defs f32_numeral)

section \<open>The mixer, loop by loop\<close>

lemma upt_4: "[0 ..< 4] = [0, 1, 2, 3]" "[1 ..< 4] = [1, 2, 3]" "[Suc 0 ..< 4] = [1, 2, 3]"
  by (simp_all add: upt_rec)

lemma less_4: "i < 4 \<Longrightarrow> i = 0 \<or> i = 1 \<or> i = 2 \<or> i = (3::nat)"
  by arith

lemma Mixer_init_fields:
  "pwmConfig (Mixer_init pc m) = pc"
  "motorsDisarmed (Mixer_init pc m) =
     (motorsDisarmed m)(0 := pwm_min pc, 1 := pwm_min pc, 2 := pwm_min pc, 3 := pwm_min pc)"
  "mixerQuadX (Mixer_init pc m) = (mixerQuadX m)
      (0 := \<lparr>throttle = 1, roll = - 1, pitch = 1, yaw = - 1\<rparr>,
       1 := \<lparr>throttle = 1, roll = - 1, pitch = - 1, yaw = 1\<rparr>,
       2 := \<lparr>throttle = 1, roll = 1, pitch = 1, yaw = 1\<rparr>,
       3 := \<lparr>throttle = 1, roll = 1, pitch = - 1, yaw = - 1\<rparr>)"
  by (simp_all add: Mixer_init_def Let_def upt_4)

lemma motor_round_other: "j \<noteq> i \<Longrightarrow> motor_round m rc armed mx i motors j = motors j"
  by (simp add: motor_round_def Let_def)

lemma motor_round_same:
  "motor_round m rc armed mx i motors i = motor_out m rc armed mx i (motors i)"
  by (simp add: motor_round_def motor_out_def Let_def)

lemma maxMotor_of_cong:
  "motors 0 = motors' 0 \<Longrightarrow> motors 1 = motors' 1 \<Longrightarrow> motors 2 = motors' 2 \<Longrightarrow> motors 3 = motors' 3
     \<Longrightarrow> maxMotor_of motors = maxMotor_of motors'"
  by (simp add: maxMotor_of_def upt_4)

lemma maxMotor_of_ge: "i < 4 \<Longrightarrow> sint (motors i) \<le> sint (maxMotor_of motors)"
  by (drule less_4) (auto simp add: maxMotor_of_def upt_4)

lemma maxMotor_of_cases:
  "maxMotor_of motors = motors 0 \<or> maxMotor_of motors = motors 1 \<or>
   maxMotor_of motors = motors 2 \<or> maxMotor_of motors = motors 3"
  by (simp add: maxMotor_of_def upt_4)

lemma Mixer_update_eq:
  "Mixer_update m rc st armed =
     map (\<lambda>i. (i, motor_out m rc armed (maxMotor_of (mix_raw m rc st)) i (mix_raw m rc st i)))
       [0, 1, 2, 3]"
proof -
  let ?motors0 = "fold (\<lambda>i motors. motors(i := mix_raw m rc st i)) [0 ..< 4] (\<lambda>_. 0)"
  have m0: "?motors0 = (\<lambda>_. 0)(0 := mix_raw m rc st 0, 1 := mix_raw m rc st 1,
                                 2 := mix_raw m rc st 2, 3 := mix_raw m rc st 3)"
    by (simp add: upt_4)
  have mx: "maxMotor_of ?motors0 = maxMotor_of (mix_raw m rc st)"
    by (rule maxMotor_of_cong) (simp_all add: m0)
  let ?mx = "maxMotor_of (mix_raw m rc st)"
  let ?r = "motor_round m rc armed ?mx"
  have f: "fold ?r [0 ..< 4] ?motors0 = ?r 3 (?r 2 (?r 1 (?r 0 ?motors0)))"
    by (simp only: upt_4 fold_simps id_apply comp_apply)
  have "?r 3 (?r 2 (?r 1 (?r 0 ?motors0))) 0 = motor_out m rc armed ?mx 0 (mix_raw m rc st 0)"
    by (simp add: motor_round_other motor_round_same m0 del: fold_simps)
  moreover
  have "?r 3 (?r 2 (?r 1 (?r 0 ?motors0))) 1 = motor_out m rc armed ?mx 1 (mix_raw m rc st 1)"
    by (simp add: motor_round_other motor_round_same m0 del: fold_simps)
  moreover
  have "?r 3 (?r 2 (?r 1 (?r 0 ?motors0))) 2 = motor_out m rc armed ?mx 2 (mix_raw m rc st 2)"
    by (simp add: motor_round_other motor_round_same m0 del: fold_simps)
  moreover
  have "?r 3 (?r 2 (?r 1 (?r 0 ?motors0))) 3 = motor_out m rc armed ?mx 3 (mix_raw m rc st 3)"
    by (simp add: motor_round_other motor_round_same m0 del: fold_simps)
  ultimately show ?thesis
    unfolding Mixer_update_def Let_def mx f
    by (simp only: upt_4 list.map) 
qed

lemma Mixer_update_nth:
  "i < 4 \<Longrightarrow> Mixer_update m rc st armed ! i =
     (i, motor_out m rc armed (maxMotor_of (mix_raw m rc st)) i (mix_raw m rc st i))"
  by (drule less_4) (auto simp add: Mixer_update_eq)

lemma length_Mixer_update: "length (Mixer_update m rc st armed) = 4"
  by (simp add: Mixer_update_eq)


lemma uint_int16_of_int: "0 \<le> k \<Longrightarrow> k < 65536 \<Longrightarrow> uint (int16_of_int k) = k"
  by (simp add: int16_of_int_def uint_word_of_int)

lemma sint_int16_wrap:
  assumes "- 98304 \<le> x" "x < - 32768"
  shows "sint (int16_of_int x) = x + 65536"
proof -
  have "(x + 32768) mod 65536 = x + 32768 + 65536"
    using assms by (intro int_mod_pos_eq [where q = "- 1"]) simp_all
  then show ?thesis
    by (simp add: int16_of_int_def int_word_sint)
qed

lemma motor_out_disarmed: "\<not> armed \<Longrightarrow> motor_out m rc armed mx i raw = motorsDisarmed m i"
  by (simp add: motor_out_def)

lemma motor_out_down:
  "armed \<Longrightarrow> throttleIsDown rc \<Longrightarrow> motor_out m rc armed mx i raw = pwm_min (pwmConfig m)"
  by (simp add: motor_out_def)

lemma motor_out_range:
  assumes "armed" "uint (pwm_min (pwmConfig m)) \<le> uint (pwm_max (pwmConfig m))"
  shows "uint (pwm_min (pwmConfig m)) \<le> uint (motor_out m rc armed mx i raw) \<and>
         uint (motor_out m rc armed mx i raw) \<le> uint (pwm_max (pwmConfig m))"
proof (cases "throttleIsDown rc")
  case True
  with assms show ?thesis by (simp add: motor_out_down)
next
  case False
  define c where "c = constrain
                (sint (if uint (pwm_max (pwmConfig m)) < sint mx
                       then int16_of_int (sint raw - (sint mx - uint (pwm_max (pwmConfig m))))
                       else raw))
                (uint (pwm_min (pwmConfig m))) (uint (pwm_max (pwmConfig m)))"
  have c: "uint (pwm_min (pwmConfig m)) \<le> c" "c \<le> uint (pwm_max (pwmConfig m))"
    using constrain_bounds [OF assms(2)] by (simp_all add: c_def)
  have "0 \<le> c"
    using c(1) uint_ge_0 [of "pwm_min (pwmConfig m)"] by linarith
  moreover have "c < 65536"
    using c(2) uint16_bounds [of "pwm_max (pwmConfig m)"] by linarith
  ultimately have "uint (int16_of_int c) = c"
    by (rule uint_int16_of_int)
  moreover have "motor_out m rc armed mx i raw = int16_of_int c"
    using assms(1) False by (simp add: motor_out_def c_def)
  ultimately show ?thesis using c by simp
qed

lemma shifted_no_wrap:
  fixes raw mx :: int16_t and pmax :: uint16_t
  assumes over: "uint pmax < sint mx"
    and le: "sint (int16_of_int (sint raw - (sint mx - uint pmax))) \<le> uint pmax"
  shows "sint (int16_of_int (sint raw - (sint mx - uint pmax))) = sint raw - (sint mx - uint pmax)"
proof -
  let ?x = "sint raw - (sint mx - uint pmax)"
  have b: "- 32768 \<le> sint raw" "sint raw < 32768" "sint mx < 32768" "0 \<le> uint pmax"
    using sint16_bounds [of raw] sint16_bounds [of mx] by simp_all
  show ?thesis
  proof (cases "?x < - 32768")
    case True
    have "- 98304 \<le> ?x" using b by linarith
    then have "sint (int16_of_int ?x) = ?x + 65536"
      using True by (rule sint_int16_wrap)
    with le b show ?thesis by linarith
  next
    case False
    moreover have "?x < 32768" using b over by linarith
    ultimately show ?thesis by (intro sint_int16_of_int) simp_all
  qed
qed

lemma motor_out_shifted:
  assumes "armed" "\<not> throttleIsDown rc"
    and over: "uint (pwm_max (pwmConfig m)) < sint mx"
    and lo: "uint (pwm_min (pwmConfig m)) \<le>
               sint (int16_of_int (sint raw - (sint mx - uint (pwm_max (pwmConfig m)))))"
    and hi: "sint (int16_of_int (sint raw - (sint mx - uint (pwm_max (pwmConfig m))))) \<le>
               uint (pwm_max (pwmConfig m))"
  shows "sint (motor_out m rc armed mx i raw) = sint raw - (sint mx - uint (pwm_max (pwmConfig m)))"
proof -
  let ?s = "int16_of_int (sint raw - (sint mx - uint (pwm_max (pwmConfig m))))"
  have "motor_out m rc armed mx i raw = int16_of_int (sint ?s)"
    using assms(1,2) over lo hi by (simp add: motor_out_def constrain_id)
  also have "\<dots> = ?s" by (simp add: int16_of_int_def)
  finally show ?thesis using shifted_no_wrap [OF over hi] by simp
qed

lemma mix_raw_example:
  "mix_raw mixer_example rc_climb stab_correcting 0 = 2200"
  "mix_raw mixer_example rc_climb stab_correcting 1 = 1800"
  "mix_raw mixer_example rc_climb stab_correcting (Suc 0) = 1800"
  "mix_raw mixer_example rc_climb stab_correcting 2 = 1800"
  "mix_raw mixer_example rc_climb stab_correcting 3 = 1800"
  by (simp_all add: mix_raw_def mixer_example_def Mixer_init_fields rc_climb_def stab_correcting_def
      stab_blank_def index_defs float_defs f32_numeral)

lemma maxMotor_example: "maxMotor_of (mix_raw mixer_example rc_climb stab_correcting) = 2200"
  by (simp add: maxMotor_of_def upt_4 mix_raw_example)

lemma uint_eq_sint:
  fixes w :: int16_t
  assumes "0 \<le> sint w"
  shows "uint w = sint w"
proof -
  have "sint w < 32768" using sint16_bounds [of w] by simp
  then have "sint w mod 65536 = sint w" using assms by simp
  then show ?thesis by (simp add: uint_sint take_bit_eq_mod)
qed

section \<open>Claims about the mixer\<close>

text \<open>
  Claim C1, amended. The disarm override passes the disarmed table on as it is, so the
  claim holds where that override does not apply or the table entry is itself in range:
  for every call to \<open>Mixer::update\<close> with \<open>pwmMin \<le> pwmMax\<close>, every stick demand and every
  correction, the command written for motor \<open>i\<close> lies in \<open>[pwmMin, pwmMax]\<close> if the vehicle
  is armed, or if it is disarmed and the disarmed value of motor \<open>i\<close> lies in that interval.
\<close>

theorem motor_commands_in_range:
  assumes "i < 4"
    and "uint (pwm_min (pwmConfig m)) \<le> uint (pwm_max (pwmConfig m))"
    and "armed \<or> (uint (pwm_min (pwmConfig m)) \<le> uint (motorsDisarmed m i) \<and>
                   uint (motorsDisarmed m i) \<le> uint (pwm_max (pwmConfig m)))"
  shows "fst (Mixer_update m rc st armed ! i) = i \<and>
         uint (pwm_min (pwmConfig m)) \<le> uint (snd (Mixer_update m rc st armed ! i)) \<and>
         uint (snd (Mixer_update m rc st armed ! i)) \<le> uint (pwm_max (pwmConfig m))"
proof (cases armed)
  case True
  then show ?thesis
    using assms(1) motor_out_range [OF True assms(2)] by (simp add: Mixer_update_nth)
next
  case False
  then show ?thesis
    using assms(1,3) by (simp add: Mixer_update_nth motor_out_disarmed)
qed

text \<open>Armed, in a climb that saturates the first motor.\<close>

theorem motor_commands_in_range_witness:
  "uint (pwm_min (pwmConfig mixer_example)) = 1000 \<and> uint (pwm_max (pwmConfig mixer_example)) = 2000 \<and>
   fst (Mixer_update mixer_example rc_climb stab_correcting True ! 0) = 0 \<and>
   1000 \<le> uint (snd (Mixer_update mixer_example rc_climb stab_correcting True ! 0)) \<and>
   uint (snd (Mixer_update mixer_example rc_climb stab_correcting True ! 0)) \<le> 2000"
proof -
  have c: "uint (pwm_min (pwmConfig mixer_example)) = 1000" "uint (pwm_max (pwmConfig mixer_example)) = 2000"
    by (simp_all add: mixer_example_def Mixer_init_fields pwm_example_def)
  show ?thesis
    using motor_commands_in_range [of 0 mixer_example True rc_climb stab_correcting] c by simp
qed

text \<open>
  The claim as first stated fails: disarmed, with the first disarmed value set to 2500,
  the first command is 2500 although \<open>pwmMax\<close> is 2000; and with the bounds swapped
  (2000, 1000) an armed mixer at idle writes 2000, above its \<open>pwmMax\<close> of 1000.
\<close>

theorem motor_commands_in_range_counterexample:
  "Mixer_update mixer_msp rc_climb stab_correcting False ! 0 = (0, 2500) \<and>
   uint (pwm_max (pwmConfig mixer_msp)) = 2000 \<and>
   Mixer_update mixer_inverted rc_idle stab_correcting True ! 0 = (0, 2000) \<and>
   uint (pwm_max (pwmConfig mixer_inverted)) = 1000"
  by (simp add: Mixer_update_nth motor_out_def mixer_msp_def mixer_example_def mixer_inverted_def
      Mixer_init_fields pwm_example_def rc_idle_def)


text \<open>
  Claim C6. When the largest raw mix exceeds \<open>pwmMax\<close> (armed, throttle not down), every
  motor's value is its raw value less the overshoot \<open>max - pwmMax\<close>, narrowed to
  \<open>int16_t\<close> and then clamped; and for two motors whose shifted values the clamp leaves
  alone, the final values are the raw values less the overshoot, so their difference is
  the difference of the raw values.
\<close>

theorem saturation_redistribution:
  fixes m :: Mixer and rc :: RC and st :: Stabilize
  defines "raw \<equiv> mix_raw m rc st"
  defines "over \<equiv> sint (maxMotor_of raw) - uint (pwm_max (pwmConfig m))"
  defines "out \<equiv> (\<lambda>k. snd (Mixer_update m rc st True ! k))"
  defines "shifted \<equiv> (\<lambda>k. int16_of_int (sint (raw k) - over))"
  defines "unclamped \<equiv> (\<lambda>k. uint (pwm_min (pwmConfig m)) \<le> sint (shifted k) \<and>
                               sint (shifted k) \<le> uint (pwm_max (pwmConfig m)))"
  assumes "i < 4" "j < 4" "\<not> throttleIsDown rc" "0 < over"
  shows "sint (raw i) \<le> sint (maxMotor_of raw) \<and>
         out i = int16_of_int (constrain (sint (shifted i))
                   (uint (pwm_min (pwmConfig m))) (uint (pwm_max (pwmConfig m)))) \<and>
         (unclamped i \<and> unclamped j \<longrightarrow>
            sint (out i) = sint (raw i) - over \<and> sint (out j) = sint (raw j) - over \<and>
            sint (out i) - sint (out j) = sint (raw i) - sint (raw j) \<and>
            uint (out i) - uint (out j) = sint (raw i) - sint (raw j))"
proof -
  have o: "uint (pwm_max (pwmConfig m)) < sint (maxMotor_of raw)"
    using assms(9) by (simp add: over_def)
  have c: "out i = int16_of_int (constrain (sint (shifted i))
                   (uint (pwm_min (pwmConfig m))) (uint (pwm_max (pwmConfig m))))"
    using assms(6,8) o
    by (simp add: out_def shifted_def raw_def over_def Mixer_update_nth motor_out_def)
  have d: "sint (out k) = sint (raw k) - over \<and> uint (out k) = sint (raw k) - over"
    if "k < 4" "unclamped k" for k
  proof -
    have s: "sint (out k) = sint (raw k) - over"
      using that assms(8) o
      by (simp add: out_def unclamped_def shifted_def raw_def over_def Mixer_update_nth
          motor_out_shifted)
    have "sint (shifted k) = sint (raw k) - over"
      using that(2) o unfolding unclamped_def shifted_def over_def
      by (intro shifted_no_wrap) simp_all
    then have "0 \<le> sint (out k)"
      using that(2) s uint_ge_0 [of "pwm_min (pwmConfig m)"] unfolding unclamped_def by linarith
    then show ?thesis using s by (simp add: uint_eq_sint)
  qed
  show ?thesis
    using c d [OF assms(6)] d [OF assms(7)] maxMotor_of_ge [OF assms(6), of raw] by simp
qed

text \<open>
  The climb of the examples: raw values 2200, 1800, 1800, 1800 against a \<open>pwmMax\<close> of
  2000 give 2000, 1600, 1600, 1600.
\<close>

theorem saturation_redistribution_witness:
  "Mixer_update mixer_example rc_climb stab_correcting True =
     [(0, 2000), (1, 1600), (2, 1600), (3, 1600)] \<and>
   sint (snd (Mixer_update mixer_example rc_climb stab_correcting True ! 0)) -
   sint (snd (Mixer_update mixer_example rc_climb stab_correcting True ! 1)) =
     sint (mix_raw mixer_example rc_climb stab_correcting 0) -
     sint (mix_raw mixer_example rc_climb stab_correcting 1)"
proof -
  have c: "pwm_min (pwmConfig mixer_example) = 1000" "pwm_max (pwmConfig mixer_example) = 2000"
    by (simp_all add: mixer_example_def Mixer_init_fields pwm_example_def)
  have d: "\<not> throttleIsDown rc_climb" by (simp add: rc_climb_def)
  have "Mixer_update mixer_example rc_climb stab_correcting True =
     [(0, 2000), (1, 1600), (2, 1600), (3, 1600)]"
    by (simp add: Mixer_update_eq motor_out_def mix_raw_example maxMotor_example c d
        int16_of_int_def constrain_def)
  then show ?thesis
    using saturation_redistribution [of 0 1 rc_climb mixer_example stab_correcting]
    by (simp add: mix_raw_example maxMotor_example c d int16_of_int_def)
qed

text \<open>
  Claim C7. Whenever \<open>armed\<close> is false, the command written for each of the four motors
  is that motor's entry of the disarmed table, whatever the throttle, the corrections, the
  saturation and the throttle-down condition.
\<close>

theorem disarmed_override:
  assumes "i < 4" "\<not> armed"
  shows "Mixer_update m rc st armed ! i = (i, motorsDisarmed m i)"
  using assms by (simp add: Mixer_update_nth motor_out_disarmed)

text \<open>Disarmed in a climb, the first disarmed value set to 2500, the others at 1000.\<close>

theorem disarmed_override_witness:
  "Mixer_update mixer_msp rc_climb stab_correcting False ! 0 = (0, 2500) \<and>
   Mixer_update mixer_msp rc_climb stab_correcting False ! 3 = (3, 1000)"
  using disarmed_override [of 0 False mixer_msp rc_climb stab_correcting]
    disarmed_override [of 3 False mixer_msp rc_climb stab_correcting]
  by (simp add: mixer_msp_def mixer_example_def Mixer_init_fields pwm_example_def)

text \<open>
  Claim C8. Whenever the receiver reports the throttle stick at its minimum and \<open>armed\<close>
  is true, the command written for each of the four motors is \<open>pwmMin\<close>, whatever the
  corrections and the throttle value.
\<close>

theorem throttle_down_override:
  assumes "i < 4" "armed" "throttleIsDown rc"
  shows "Mixer_update m rc st armed ! i = (i, pwm_min (pwmConfig m))"
  using assms by (simp add: Mixer_update_nth motor_out_down)

text \<open>Armed at idle, with corrections of -100, 100 and 100.\<close>

theorem throttle_down_override_witness:
  "throttleIsDown rc_idle \<and>
   Mixer_update mixer_example rc_idle stab_correcting True ! 2 = (2, 1000)"
  using throttle_down_override [of 2 True rc_idle mixer_example stab_correcting]
  by (simp add: rc_idle_def mixer_example_def Mixer_init_fields pwm_example_def)

section \<open>A claim about both\<close>

text \<open>
  Claim C10. The correction \<open>computePid\<close> returns is the 32-bit sum
  \<open>(PTerm - gyro * rateP) + ITerm - DTerm + softwareTrim\<close> narrowed to \<open>int16_t\<close>: read as
  a signed number it is that sum reduced modulo \<open>2 ^ 16\<close> into \<open>[-32768, 32767]\<close>, so a
  sum outside that interval wraps around and is not clamped (a sum of 40000 gives -25536).
  The cast of each raw motor mix to \<open>int16_t\<close> in \<open>Mixer::update\<close> narrows the same way (a
  mix of 40000 gives -25536).
\<close>

theorem narrowing_wraps:
  "sint (computePid s rateP PTerm ITerm DTerm gyroADC axis) =
     (sint (int32_of_float (fsub (float_of_int (sint PTerm))
                                 (fmul (float_of_int (sint (gyroADC axis))) rateP))
            + ITerm - DTerm + int32_of_int (sint (softwareTrim (pidConfig s) axis)))
      + 32768) mod 65536 - 32768 \<and>
   sint (mix_raw m rc st i) =
     (trunc (fsub
          (fadd
             (fadd (fmul (float_of_int (sint (command rc DEMAND_THROTTLE))) (throttle (mixerQuadX m i)))
                   (fmul (float_of_int (sint (axisPID st AXIS_PITCH))) (pitch (mixerQuadX m i))))
             (fmul (float_of_int (sint (axisPID st AXIS_ROLL))) (roll (mixerQuadX m i))))
          (fmul (float_of_int (sint (axisPID st AXIS_YAW))) (yaw (mixerQuadX m i))))
      + 32768) mod 65536 - 32768 \<and>
   computePid stab_blank 1 40000 0 0 still16 AXIS_ROLL = - 25536 \<and>
   mix_raw mixer_example rc_full stab_pitching 0 = - 25536"
proof -
  have n: "sint (int16_of_int k) = (k + 32768) mod 65536 - 32768" for k
    by (simp add: int16_of_int_def int_word_sint)
  have a: "computePid stab_blank 1 40000 0 0 still16 AXIS_ROLL = - 25536"
    by (simp add: computePid_def example_defs float_defs f32_numeral)
  have b: "mix_raw mixer_example rc_full stab_pitching 0 = - 25536"
    by (simp add: mix_raw_def mixer_example_def Mixer_init_fields rc_full_def stab_pitching_def
        stab_blank_def index_defs float_defs f32_numeral)
  show ?thesis
    using a b by (simp add: computePid_def mix_raw_def int16_of_float_def n)
qed

end
